theory Spec2Isabelle
  imports Main
begin

section \<open>Python values and dictionaries\<close>

text \<open>
  The two scripts assemble nested Python dictionaries. A value stored in a configuration
  is a string, an integer, a list, a dictionary with string keys, the checkpoint-store
  object returned by the external \<^verbatim>\<open>SqliteSaver.from_conn_string\<close> (opaque, of type \<open>'h\<close>),
  or one of the one-argument lambdas of \<^verbatim>\<open>integrate_with_graph_db\<close>.

  A Python \<^verbatim>\<open>str\<close> is a sequence of code points; it is modelled by \<open>string\<close>, one \<open>char\<close>
  per code point, which covers the code points below 256 (all literals of the source are
  in that range). A dictionary keeps its insertion order, so it is an association list
  whose keys are distinct: assigning to a present key replaces the value in place,
  assigning to an absent key appends the entry.
\<close>

datatype 'h pyval =
    PStr string
  | PInt int
  | PList "'h pyval list"
  | PDict "(string \<times> 'h pyval) list"
  | PStore 'h
  | PLambda "string \<Rightarrow> string"

type_synonym 'h dict = "(string \<times> 'h pyval) list"

text \<open>\<^verbatim>\<open>d[k] = v\<close>\<close>

primrec setitem :: "'h dict \<Rightarrow> string \<Rightarrow> 'h pyval \<Rightarrow> 'h dict" where
  "setitem [] k v = [(k, v)]"
| "setitem (p # ps) k v = (if fst p = k then (k, v) # ps else p # setitem ps k v)"

text \<open>\<^verbatim>\<open>d.get(k)\<close>: \<open>None\<close> when the key is absent.\<close>

definition get :: "'h dict \<Rightarrow> string \<Rightarrow> 'h pyval option" where
  "get d k = map_of d k"

text \<open>\<^verbatim>\<open>list(d.keys())\<close>\<close>

definition keys :: "'h dict \<Rightarrow> string list" where
  "keys d = map fst d"

text \<open>
  The dictionary display \<^verbatim>\<open>{k1: v1, ..., **kwargs}\<close>: the entries written out come first,
  then every item of \<^verbatim>\<open>kwargs\<close> is assigned in its order.
\<close>

primrec unpack_into :: "'h dict \<Rightarrow> 'h dict \<Rightarrow> 'h dict" where
  "unpack_into d [] = d"
| "unpack_into d (kv # kwargs) = unpack_into (setitem d (fst kv) (snd kv)) kwargs"

text \<open>
  A configuration is the dictionary \<^verbatim>\<open>{"configurable": {...}}\<close>: its single key is fixed by
  both scripts and never assigned again, so it is a record with that one field.
\<close>

record 'h config =
  configurable :: "'h dict"

text \<open>
  \<^verbatim>\<open>SqliteSaver.from_conn_string\<close> belongs to the external persistence library. It is a
  parameter of every function that calls it: given the connection string it returns a
  handle or raises, and whatever it raises propagates to the caller.

  \<open>TypeError\<close> is what Python raises when a call cannot be bound to the signature: a
  keyword that has the name of a parameter already filled (\<^verbatim>\<open>got multiple values for
  argument\<close>) never reaches the \<^verbatim>\<open>**\<close> parameter.
\<close>

datatype error = ExternalError string | TypeError

type_synonym 'h from_conn_string = "string \<Rightarrow> error + 'h"

section \<open>enhanced\_agent\_example.py\<close>

definition add_numbers :: "int \<Rightarrow> int \<Rightarrow> int" where
  "add_numbers a b = a + b"

text \<open>The degree sign U+00B0 of the weather sentence.\<close>

definition degree_sign :: char where
  "degree_sign = CHR 0xB0"

definition get_weather :: "string \<Rightarrow> string" where
  "get_weather city = ''The weather in '' @ city @ '' is sunny and 72'' @ [degree_sign] @ ''F''"

text \<open>
  \<^verbatim>\<open>def create_enhanced_config(thread_id: str = "1")\<close>: the argument is \<open>None\<close> when the
  caller leaves it out.
\<close>

definition create_enhanced_config ::
    "'h from_conn_string \<Rightarrow> string option \<Rightarrow> error + 'h config" where
  "create_enhanced_config from_conn_string arg =
     (let thread_id = (case arg of None \<Rightarrow> ''1'' | Some t \<Rightarrow> t) in
      case from_conn_string ''sqlite:///checkpoints.db'' of
        Inl e \<Rightarrow> Inl e
      | Inr store \<Rightarrow> Inr \<lparr>configurable =
          [(''thread_id'', PStr thread_id),
           (''user_id'', PStr ''user123''),
           (''session_id'', PStr ''session456''),
           (''graph_db'', PDict
              [(''type'', PStr ''sqlite''),
               (''path'', PStr ''./knowledge_graph.db''),
               (''schema'', PDict
                  [(''nodes'', PList [PStr ''concepts'', PStr ''entities'', PStr ''relationships'']),
                   (''edges'', PList [PStr ''relates_to'', PStr ''part_of'', PStr ''similar_to''])])]),
           (''memory'', PDict
              [(''type'', PStr ''sqlite''),
               (''table'', PStr ''conversation_memory''),
               (''max_tokens'', PInt 4000),
               (''retention_days'', PInt 30)]),
           (''checkpoint_store'', PStore store),
           (''metadata'', PDict
              [(''environment'', PStr ''development''),
               (''version'', PStr ''1.0.0''),
               (''features'', PList [PStr ''graph_db'', PStr ''memory'', PStr ''checkpointing'']),
               (''graph_queries'', PDict
                  [(''find_related'',
                      PStr ''MATCH (n)-[r]->(m) WHERE n.id = $node_id RETURN m, r''),
                   (''get_entities'', PStr ''MATCH (n:entity) RETURN n LIMIT 10'')])])]\<rparr>)"

definition graph_operations :: "'h dict" where
  "graph_operations =
     [(''store_entity'', PLambda (\<lambda>entity. ''Stored entity: '' @ entity)),
      (''find_relationships'', PLambda (\<lambda>entity. ''Found relationships for: '' @ entity)),
      (''query_graph'', PLambda (\<lambda>query. ''Executed query: '' @ query))]"

definition integrate_with_graph_db :: "'h from_conn_string \<Rightarrow> error + 'h config" where
  "integrate_with_graph_db from_conn_string =
     (case create_enhanced_config from_conn_string (Some ''graph_conversation'') of
        Inl e \<Rightarrow> Inl e
      | Inr config \<Rightarrow>
          Inr (config\<lparr>configurable :=
                 setitem (configurable config) ''graph_operations'' (PDict graph_operations)\<rparr>))"

section \<open>graph\_config\_example.py\<close>

text \<open>
  \<^verbatim>\<open>class GraphConfigBuilder\<close> has the single attribute \<^verbatim>\<open>config\<close>. A method that ends in
  \<^verbatim>\<open>return self\<close> returns the builder after its assignment.
\<close>

record 'h GraphConfigBuilder =
  config :: "'h config"

text \<open>\<^verbatim>\<open>__init__\<close>: the builder \<^verbatim>\<open>GraphConfigBuilder()\<close>.\<close>

definition init :: "'h GraphConfigBuilder" where
  "init = \<lparr>config = \<lparr>configurable = []\<rparr>\<rparr>"

text \<open>\<^verbatim>\<open>self.config["configurable"][k] = v\<close>\<close>

definition assign ::
    "'h GraphConfigBuilder \<Rightarrow> string \<Rightarrow> 'h pyval \<Rightarrow> 'h GraphConfigBuilder" where
  "assign self k v =
     self\<lparr>config := (config self)\<lparr>configurable := setitem (configurable (config self)) k v\<rparr>\<rparr>"

definition add_thread_id :: "'h GraphConfigBuilder \<Rightarrow> string \<Rightarrow> 'h GraphConfigBuilder" where
  "add_thread_id self thread_id = assign self ''thread_id'' (PStr thread_id)"

definition add_user_context ::
    "'h GraphConfigBuilder \<Rightarrow> string \<Rightarrow> string \<Rightarrow> 'h GraphConfigBuilder" where
  "add_user_context self user_id session_id =
     assign (assign self ''user_id'' (PStr user_id)) ''session_id'' (PStr session_id)"

text \<open>\<^verbatim>\<open>database: str = "neo4j"\<close>: \<open>None\<close> when the caller leaves it out.\<close>

definition add_neo4j_graph ::
    "'h GraphConfigBuilder \<Rightarrow> string \<Rightarrow> string \<Rightarrow> string \<Rightarrow> string option \<Rightarrow> 'h GraphConfigBuilder" where
  "add_neo4j_graph self uri user password database_arg =
     (let database = (case database_arg of None \<Rightarrow> ''neo4j'' | Some d \<Rightarrow> d) in
      assign self ''graph_db'' (PDict
        [(''type'', PStr ''neo4j''),
         (''uri'', PStr uri),
         (''user'', PStr user),
         (''password'', PStr password),
         (''database'', PStr database)]))"

definition add_sqlite_graph :: "'h GraphConfigBuilder \<Rightarrow> string \<Rightarrow> 'h GraphConfigBuilder" where
  "add_sqlite_graph self db_path =
     assign self ''graph_db'' (PDict [(''type'', PStr ''sqlite''), (''path'', PStr db_path)])"

text \<open>
  \<^verbatim>\<open>def add_memory_config(self, memory_type: str, **kwargs)\<close>: \<open>kwargs\<close> are the keywords of
  the call other than \<^verbatim>\<open>memory_type\<close> itself. One named \<^verbatim>\<open>self\<close> or \<^verbatim>\<open>memory_type\<close> gives the
  parameter a second value, and the call raises before the body runs.
\<close>

definition add_memory_config ::
    "'h GraphConfigBuilder \<Rightarrow> string \<Rightarrow> 'h dict \<Rightarrow> error + 'h GraphConfigBuilder" where
  "add_memory_config self memory_type kwargs =
     (if ''self'' \<in> set (keys kwargs) \<or> ''memory_type'' \<in> set (keys kwargs) then Inl TypeError
      else Inr (assign self ''memory''
             (PDict (unpack_into [(''type'', PStr memory_type)] kwargs))))"

definition add_checkpointing ::
    "'h from_conn_string \<Rightarrow> 'h GraphConfigBuilder \<Rightarrow> string \<Rightarrow> error + 'h GraphConfigBuilder" where
  "add_checkpointing from_conn_string self checkpoint_path =
     (case from_conn_string checkpoint_path of
        Inl e \<Rightarrow> Inl e
      | Inr store \<Rightarrow> Inr (assign self ''checkpoint_store'' (PStore store)))"

text \<open>
  \<^verbatim>\<open>def add_custom_metadata(self, **metadata)\<close>: a keyword named \<^verbatim>\<open>self\<close> gives \<^verbatim>\<open>self\<close> a
  second value, and the call raises before the body runs.
\<close>

definition add_custom_metadata ::
    "'h GraphConfigBuilder \<Rightarrow> 'h dict \<Rightarrow> error + 'h GraphConfigBuilder" where
  "add_custom_metadata self metadata =
     (if ''self'' \<in> set (keys metadata) then Inl TypeError
      else Inr (assign self ''metadata'' (PDict metadata)))"

text \<open>
  \<^verbatim>\<open>build\<close> returns \<^verbatim>\<open>self.config\<close>; the second component is the builder after the call.
\<close>

definition build :: "'h GraphConfigBuilder \<Rightarrow> 'h config \<times> 'h GraphConfigBuilder" where
  "build self = (config self, self)"

text \<open>\<^verbatim>\<open>os.getenv(key, default)\<close> over the process environment.\<close>

definition getenv :: "(string \<rightharpoonup> string) \<Rightarrow> string \<Rightarrow> string \<Rightarrow> string" where
  "getenv environ key fallback = (case environ key of None \<Rightarrow> fallback | Some v \<Rightarrow> v)"

definition create_advanced_config ::
    "(string \<rightharpoonup> string) \<Rightarrow> 'h from_conn_string \<Rightarrow> error + 'h config" where
  "create_advanced_config environ from_conn_string =
     (let b1 = add_thread_id init ''conversation_1'';
          b2 = add_user_context b1 ''user123'' ''session456'';
          b3 = add_neo4j_graph b2 ''bolt://localhost:7687'' ''neo4j''
                 (getenv environ ''NEO4J_PASSWORD'' ''password'') (Some ''langgraph'')
      in case add_memory_config b3 ''neo4j''
                [(''collection'', PStr ''conversations''), (''max_tokens'', PInt 4000)] of
           Inl e \<Rightarrow> Inl e
         | Inr b4 \<Rightarrow>
        (case add_checkpointing from_conn_string b4 ''sqlite:///checkpoints.db'' of
           Inl e \<Rightarrow> Inl e
         | Inr b5 \<Rightarrow>
        (case add_custom_metadata b5
                [(''environment'', PStr ''production''),
                 (''version'', PStr ''1.0.0''),
                 (''features'', PList [PStr ''graph_db'', PStr ''memory'', PStr ''checkpointing''])] of
           Inl e \<Rightarrow> Inl e
         | Inr b6 \<Rightarrow> Inr (fst (build b6)))))"

definition create_sqlite_config :: "error + 'h config" where
  "create_sqlite_config =
     (let b1 = add_thread_id init ''thread_2'';
          b2 = add_sqlite_graph b1 ''./knowledge_graph.db''
      in case add_memory_config b2 ''sqlite'' [(''table'', PStr ''conversation_memory'')] of
           Inl e \<Rightarrow> Inl e
         | Inr b3 \<Rightarrow>
        (case add_custom_metadata b3
                [(''graph_schema'', PDict
                   [(''nodes'', PList [PStr ''concepts'', PStr ''entities'', PStr ''relationships'']),
                    (''edges'', PList [PStr ''relates_to'', PStr ''part_of'', PStr ''similar_to''])])] of
           Inl e \<Rightarrow> Inl e
         | Inr b4 \<Rightarrow> Inr (fst (build b4))))"

section \<open>Sequences of builder calls\<close>

text \<open>
  A chain \<^verbatim>\<open>GraphConfigBuilder().m1(...).m2(...)\<close> is a list of method calls applied from
  left to right; an exception raised inside a call ends the chain.
\<close>

datatype 'h builder_call =
    Add_thread_id string
  | Add_user_context string string
  | Add_neo4j_graph string string string "string option"
  | Add_sqlite_graph string
  | Add_memory_config string "'h dict"
  | Add_checkpointing string
  | Add_custom_metadata "'h dict"

fun call ::
    "'h from_conn_string \<Rightarrow> 'h GraphConfigBuilder \<Rightarrow> 'h builder_call \<Rightarrow>
     error + 'h GraphConfigBuilder" where
  "call f self (Add_thread_id t) = Inr (add_thread_id self t)"
| "call f self (Add_user_context u s) = Inr (add_user_context self u s)"
| "call f self (Add_neo4j_graph uri user password database) =
     Inr (add_neo4j_graph self uri user password database)"
| "call f self (Add_sqlite_graph p) = Inr (add_sqlite_graph self p)"
| "call f self (Add_memory_config t kwargs) = add_memory_config self t kwargs"
| "call f self (Add_checkpointing p) = add_checkpointing f self p"
| "call f self (Add_custom_metadata kwargs) = add_custom_metadata self kwargs"

fun chain ::
    "'h from_conn_string \<Rightarrow> 'h GraphConfigBuilder \<Rightarrow> 'h builder_call list \<Rightarrow>
     error + 'h GraphConfigBuilder" where
  "chain f self [] = Inr self"
| "chain f self (c # cs) =
     (case call f self c of Inl e \<Rightarrow> Inl e | Inr self' \<Rightarrow> chain f self' cs)"

section \<open>The two shapes of the graph database entry\<close>

text \<open>
  The specification names two shapes for \<^verbatim>\<open>graph_db\<close>: a dictionary with exactly the keys
  \<^verbatim>\<open>type\<close>, \<^verbatim>\<open>path\<close> and tag \<^verbatim>\<open>"sqlite"\<close>, or one with exactly the keys \<^verbatim>\<open>type\<close>, \<^verbatim>\<open>uri\<close>,
  \<^verbatim>\<open>user\<close>, \<^verbatim>\<open>password\<close>, \<^verbatim>\<open>database\<close> and tag \<^verbatim>\<open>"neo4j"\<close>. The predicates follow these
  words; \<open>graph_db_ok\<close> says that the entry of a builder, when it has one, has one of the
  two shapes.
\<close>

definition is_sqlite_variant :: "'h pyval \<Rightarrow> bool" where
  "is_sqlite_variant g =
     (case g of
        PDict d \<Rightarrow> distinct (keys d) \<and> set (keys d) = {''type'', ''path''} \<and>
                   get d ''type'' = Some (PStr ''sqlite'')
      | _ \<Rightarrow> False)"

definition is_neo4j_variant :: "'h pyval \<Rightarrow> bool" where
  "is_neo4j_variant g =
     (case g of
        PDict d \<Rightarrow> distinct (keys d) \<and>
                   set (keys d) = {''type'', ''uri'', ''user'', ''password'', ''database''} \<and>
                   get d ''type'' = Some (PStr ''neo4j'')
      | _ \<Rightarrow> False)"

definition graph_db_variant :: "'h pyval \<Rightarrow> bool" where
  "graph_db_variant g = (is_sqlite_variant g \<or> is_neo4j_variant g)"

definition graph_db_ok :: "'h GraphConfigBuilder \<Rightarrow> bool" where
  "graph_db_ok self =
     (case get (configurable (config self)) ''graph_db'' of
        None \<Rightarrow> True
      | Some g \<Rightarrow> graph_db_variant g)"

text \<open>A checkpoint-store constructor that opens every connection string.\<close>

definition always_open :: "nat from_conn_string" where
  "always_open conn_string = Inr (length conn_string)"

section \<open>Dictionary lemmas\<close>

lemma get_setitem: "get (setitem d k v) k' = (if k' = k then Some v else get d k')"
  by (induction d) (auto simp: get_def)

lemma setitem_twice: "setitem (setitem d k v) k w = setitem d k w"
  by (induction d) auto

lemma keys_setitem:
  "keys (setitem d k v) = (if k \<in> set (keys d) then keys d else keys d @ [k])"
  by (induction d) (auto simp: keys_def)

lemma get_assign:
  "get (configurable (config (assign self k v))) k' =
     (if k' = k then Some v else get (configurable (config self)) k')"
  by (simp add: assign_def get_setitem)

lemma assign_twice: "assign (assign self k v) k w = assign self k w"
  by (simp add: assign_def setitem_twice)

lemma get_Cons: "get ((a, b) # d) k = (if k = a then Some b else get d k)"
  by (simp add: get_def)

lemma get_absent: "k \<notin> set (keys d) \<Longrightarrow> get d k = None"
  by (simp add: get_def keys_def map_of_eq_None_iff)

lemma get_unpack_into:
  "distinct (keys kwargs) \<Longrightarrow>
   get (unpack_into d kwargs) k = (case get kwargs k of None \<Rightarrow> get d k | Some v \<Rightarrow> Some v)"
proof (induction kwargs arbitrary: d)
  case Nil
  then show ?case by (simp add: get_def)
next
  case (Cons kv kwargs)
  obtain a b where kv: "kv = (a, b)" by (cases kv)
  from Cons.prems have fresh: "a \<notin> set (keys kwargs)" and dist: "distinct (keys kwargs)"
    by (simp_all add: keys_def kv)
  have step: "get (unpack_into (setitem d a b) kwargs) k =
      (case get kwargs k of None \<Rightarrow> get (setitem d a b) k | Some v \<Rightarrow> Some v)"
    by (rule Cons.IH [OF dist])
  show ?case
  proof (cases "k = a")
    case True
    with step get_absent [OF fresh] show ?thesis
      by (simp add: kv get_Cons get_setitem)
  next
    case False
    with step show ?thesis
      by (simp add: kv get_Cons get_setitem split: option.split)
  qed
qed
lemma always_open_checkpoints: "always_open ''sqlite:///checkpoints.db'' = Inr 24"
  by (simp add: always_open_def)

lemma sqlite_shape: "is_sqlite_variant (PDict [(''type'', PStr ''sqlite''), (''path'', PStr p)])"
  by (auto simp: is_sqlite_variant_def keys_def get_def)

lemma neo4j_shape:
  "is_neo4j_variant (PDict [(''type'', PStr ''neo4j''), (''uri'', PStr uri), (''user'', PStr user),
     (''password'', PStr password), (''database'', PStr database)])"
  by (auto simp: is_neo4j_variant_def keys_def get_def)

lemma graph_db_ok_assign:
  "graph_db_ok (assign self k v) = (if k = ''graph_db'' then graph_db_variant v else graph_db_ok self)"
  by (simp add: graph_db_ok_def get_assign)

lemma graph_db_ok_call:
  assumes "graph_db_ok self" and "call f self c = Inr self'"
  shows "graph_db_ok self'"
proof (cases c)
  case (Add_neo4j_graph uri user password database)
  with assms show ?thesis
    by (auto simp: add_neo4j_graph_def graph_db_ok_assign graph_db_variant_def neo4j_shape)
next
  case (Add_sqlite_graph p)
  with assms show ?thesis
    by (auto simp: add_sqlite_graph_def graph_db_ok_assign graph_db_variant_def sqlite_shape)
next
  case (Add_checkpointing p)
  with assms show ?thesis
    by (auto simp: add_checkpointing_def graph_db_ok_assign split: sum.splits)
qed (use assms in \<open>auto simp: add_thread_id_def add_user_context_def add_memory_config_def
      add_custom_metadata_def graph_db_ok_assign split: if_splits\<close>)

lemma graph_db_ok_chain:
  "graph_db_ok self \<Longrightarrow> chain f self cs = Inr self' \<Longrightarrow> graph_db_ok self'"
proof (induction cs arbitrary: self)
  case Nil
  then show ?case by simp
next
  case (Cons c cs)
  then show ?case
    by (auto split: sum.splits dest: graph_db_ok_call)
qed

lemma graph_db_ok_init: "graph_db_ok init"
  by (simp add: graph_db_ok_def init_def get_def)
lemma three_keys_not_two: "{''type'', ''path'', ''schema''} \<noteq> {''type'', ''path''}"
proof
  assume eq: "{''type'', ''path'', ''schema''} = {''type'', ''path''}"
  have "''schema'' \<in> {''type'', ''path'', ''schema''}" by simp
  then have "''schema'' \<in> {''type'', ''path''}" by (simp only: eq)
  then show False by simp
qed

lemma create_advanced_config_Inr:
  assumes "from_conn_string ''sqlite:///checkpoints.db'' = Inr store"
  shows "create_advanced_config environ from_conn_string = Inr \<lparr>configurable =
     [(''thread_id'', PStr ''conversation_1''),
      (''user_id'', PStr ''user123''),
      (''session_id'', PStr ''session456''),
      (''graph_db'', PDict
         [(''type'', PStr ''neo4j''),
          (''uri'', PStr ''bolt://localhost:7687''),
          (''user'', PStr ''neo4j''),
          (''password'', PStr (getenv environ ''NEO4J_PASSWORD'' ''password'')),
          (''database'', PStr ''langgraph'')]),
      (''memory'', PDict
         [(''type'', PStr ''neo4j''),
          (''collection'', PStr ''conversations''),
          (''max_tokens'', PInt 4000)]),
      (''checkpoint_store'', PStore store),
      (''metadata'', PDict
         [(''environment'', PStr ''production''),
          (''version'', PStr ''1.0.0''),
          (''features'', PList [PStr ''graph_db'', PStr ''memory'', PStr ''checkpointing''])])]\<rparr>"
  using assms
  by (simp add: create_advanced_config_def build_def add_custom_metadata_def
      add_checkpointing_def add_memory_config_def add_neo4j_graph_def add_user_context_def
      add_thread_id_def assign_def init_def keys_def Let_def)

section \<open>The direct constructor\<close>

text \<open>
  C1 (as amended). Whenever the external checkpoint-store constructor returns a handle,
  \<open>create_enhanced_config\<close> returns, for every string argument and for no argument, a
  record whose \<^verbatim>\<open>configurable\<close> dictionary has exactly the seven keys \<^verbatim>\<open>thread_id\<close>,
  \<^verbatim>\<open>user_id\<close>, \<^verbatim>\<open>session_id\<close>, \<^verbatim>\<open>graph_db\<close>, \<^verbatim>\<open>memory\<close>, \<^verbatim>\<open>checkpoint_store\<close>, \<^verbatim>\<open>metadata\<close>;
  \<^verbatim>\<open>thread_id\<close> is the argument, and \<^verbatim>\<open>"1"\<close> when there is none.
\<close>

theorem enhanced_config_keys:
  assumes "from_conn_string ''sqlite:///checkpoints.db'' = Inr store"
  shows "\<exists>c. create_enhanced_config from_conn_string arg = Inr c \<and>
           keys (configurable c) =
             [''thread_id'', ''user_id'', ''session_id'', ''graph_db'', ''memory'',
              ''checkpoint_store'', ''metadata''] \<and>
           get (configurable c) ''thread_id'' = Some (PStr (case arg of None \<Rightarrow> ''1'' | Some t \<Rightarrow> t))"
  using assms by (simp add: create_enhanced_config_def keys_def get_def)

theorem enhanced_config_keys_witness:
  "always_open ''sqlite:///checkpoints.db'' = Inr 24 \<and>
   (\<exists>c. create_enhanced_config always_open None = Inr c \<and>
      keys (configurable c) =
        [''thread_id'', ''user_id'', ''session_id'', ''graph_db'', ''memory'',
         ''checkpoint_store'', ''metadata''] \<and>
      get (configurable c) ''thread_id'' = Some (PStr ''1''))"
  using enhanced_config_keys [of always_open 24 None] always_open_checkpoints
  by simp

text \<open>The keys are seven, not five.\<close>

theorem enhanced_config_five_keys_counterexample:
  "length (keys (configurable (projr (create_enhanced_config always_open None)))) \<noteq> 5"
  by (simp add: create_enhanced_config_def always_open_def keys_def)

text \<open>
  C10. When \<open>create_enhanced_config\<close> called with \<^verbatim>\<open>"graph_conversation"\<close> returns a record,
  \<open>integrate_with_graph_db\<close> returns that record with one more key, \<^verbatim>\<open>graph_operations\<close>,
  appended to \<^verbatim>\<open>configurable\<close>: a dictionary with the three keys \<^verbatim>\<open>store_entity\<close>,
  \<^verbatim>\<open>find_relationships\<close>, \<^verbatim>\<open>query_graph\<close>. The key was not there before, and every other
  key has the value it had.
\<close>

theorem integrate_adds_graph_operations:
  assumes "create_enhanced_config from_conn_string (Some ''graph_conversation'') = Inr c"
  shows "\<exists>c' ops. integrate_with_graph_db from_conn_string = Inr c' \<and>
           ''graph_operations'' \<notin> set (keys (configurable c)) \<and>
           keys (configurable c') = keys (configurable c) @ [''graph_operations''] \<and>
           get (configurable c') ''graph_operations'' = Some (PDict ops) \<and>
           keys ops = [''store_entity'', ''find_relationships'', ''query_graph''] \<and>
           (\<forall>k. k \<noteq> ''graph_operations'' \<longrightarrow> get (configurable c') k = get (configurable c) k)"
proof -
  from assms have fresh: "''graph_operations'' \<notin> set (keys (configurable c))"
    by (auto simp: create_enhanced_config_def keys_def split: sum.splits)
  show ?thesis
    using fresh
    by (simp add: integrate_with_graph_db_def assms keys_setitem get_setitem
        graph_operations_def) (simp add: keys_def)
qed

theorem integrate_adds_graph_operations_witness:
  "\<exists>c. create_enhanced_config always_open (Some ''graph_conversation'') = Inr c \<and>
     (\<exists>c'. integrate_with_graph_db always_open = Inr c' \<and>
        keys (configurable c') = keys (configurable c) @ [''graph_operations''] \<and>
        get (configurable c') ''thread_id'' = Some (PStr ''graph_conversation''))"
proof -
  obtain c where c: "create_enhanced_config always_open (Some ''graph_conversation'') = Inr c"
      and t: "get (configurable c) ''thread_id'' = Some (PStr ''graph_conversation'')"
    by (simp add: create_enhanced_config_def always_open_def get_def)
  from integrate_adds_graph_operations [OF c] c t show ?thesis
    by auto
qed

section \<open>The graph database entry\<close>

text \<open>
  C2 (as amended). Every builder reached from a fresh one by a chain of calls has no
  \<^verbatim>\<open>graph_db\<close> entry or one of the two shapes; \<open>add_sqlite_graph\<close> writes the local-file
  shape and \<open>add_neo4j_graph\<close> the network shape. The direct constructor writes the keys
  \<^verbatim>\<open>type\<close>, \<^verbatim>\<open>path\<close> and a third key \<^verbatim>\<open>schema\<close>, with tag \<^verbatim>\<open>"sqlite"\<close>.
\<close>

theorem graph_db_variants:
  "(chain f init cs = Inr self \<longrightarrow> graph_db_ok self) \<and>
   (\<exists>g. get (configurable (config (add_sqlite_graph self0 db_path))) ''graph_db'' = Some g \<and>
      is_sqlite_variant g) \<and>
   (\<exists>g. get (configurable (config (add_neo4j_graph self0 uri user password database))) ''graph_db'' = Some g \<and>
      is_neo4j_variant g) \<and>
   (create_enhanced_config f arg = Inr c \<longrightarrow>
      (\<exists>g. get (configurable c) ''graph_db'' = Some (PDict g) \<and>
         keys g = [''type'', ''path'', ''schema''] \<and>
         get g ''type'' = Some (PStr ''sqlite'') \<and>
         get g ''path'' = Some (PStr ''./knowledge_graph.db'')))"
proof (intro conjI impI)
  assume "chain f init cs = Inr self"
  with graph_db_ok_init show "graph_db_ok self"
    by (rule graph_db_ok_chain)
next
  show "\<exists>g. get (configurable (config (add_sqlite_graph self0 db_path))) ''graph_db'' = Some g \<and>
      is_sqlite_variant g"
    by (simp add: add_sqlite_graph_def get_assign sqlite_shape)
next
  show "\<exists>g. get (configurable (config (add_neo4j_graph self0 uri user password database))) ''graph_db'' = Some g \<and>
      is_neo4j_variant g"
    by (simp add: add_neo4j_graph_def get_assign neo4j_shape)
next
  assume "create_enhanced_config f arg = Inr c"
  then show "\<exists>g. get (configurable c) ''graph_db'' = Some (PDict g) \<and>
         keys g = [''type'', ''path'', ''schema''] \<and>
         get g ''type'' = Some (PStr ''sqlite'') \<and>
         get g ''path'' = Some (PStr ''./knowledge_graph.db'')"
    by (auto simp: create_enhanced_config_def keys_def get_def split: sum.splits)
qed

theorem graph_db_variants_witness:
  "(\<exists>self. chain always_open init
       [Add_thread_id ''t'', Add_neo4j_graph ''bolt://h:7687'' ''neo4j'' ''pw'' None,
        Add_checkpointing ''sqlite:///checkpoints.db'', Add_sqlite_graph ''./kg.db''] = Inr self \<and>
      graph_db_ok self) \<and>
   (\<exists>c g. create_enhanced_config always_open None = Inr c \<and>
      get (configurable c) ''graph_db'' = Some (PDict g) \<and>
      keys g = [''type'', ''path'', ''schema''])"
proof -
  obtain self where s: "chain always_open init
       [Add_thread_id ''t'', Add_neo4j_graph ''bolt://h:7687'' ''neo4j'' ''pw'' None,
        Add_checkpointing ''sqlite:///checkpoints.db'', Add_sqlite_graph ''./kg.db''] = Inr self"
    by (simp add: add_checkpointing_def always_open_def)
  obtain c where c: "create_enhanced_config always_open None = Inr c"
    by (simp add: create_enhanced_config_def always_open_def)
  from graph_db_variants [of always_open _ self _ _ _ _ _ _ None c] s c show ?thesis
    by blast
qed

text \<open>The entry of the direct constructor has neither shape.\<close>

theorem direct_constructor_graph_db_counterexample:
  "\<not> graph_db_variant
       (the (get (configurable (projr (create_enhanced_config always_open None))) ''graph_db''))"
  by (simp add: create_enhanced_config_def always_open_def get_def graph_db_variant_def
      is_sqlite_variant_def is_neo4j_variant_def keys_def three_keys_not_two)

section \<open>The builder\<close>

text \<open>
  C3. For every builder and all arguments, \<open>add_sqlite_graph\<close> after \<open>add_neo4j_graph\<close>
  leaves \<^verbatim>\<open>graph_db\<close> equal to \<^verbatim>\<open>{type: "sqlite", path: db_path}\<close>, and the builder is the one
  that \<open>add_sqlite_graph\<close> alone produces: nothing of the network entry remains.
\<close>

theorem sqlite_after_neo4j:
  "get (configurable (fst (build (add_sqlite_graph (add_neo4j_graph self uri user password database) db_path)))) ''graph_db''
     = Some (PDict [(''type'', PStr ''sqlite''), (''path'', PStr db_path)])
   \<and> add_sqlite_graph (add_neo4j_graph self uri user password database) db_path
     = add_sqlite_graph self db_path"
  by (simp add: build_def add_sqlite_graph_def add_neo4j_graph_def get_assign assign_twice Let_def)

text \<open>
  C4 (as amended). For every builder and any two keyword dictionaries in which no keyword
  is named \<^verbatim>\<open>self\<close>, \<open>add_custom_metadata\<close> called with the first and then with the second
  returns a builder whose \<^verbatim>\<open>metadata\<close> equals the second, and that builder is the one the
  second call alone produces: none of the first call's fields remain.
\<close>

theorem metadata_overwrite:
  assumes "''self'' \<notin> set (keys m1)" and "''self'' \<notin> set (keys m2)"
  shows "\<exists>b1 b2. add_custom_metadata self m1 = Inr b1 \<and>
           add_custom_metadata b1 m2 = Inr b2 \<and>
           get (configurable (fst (build b2))) ''metadata'' = Some (PDict m2) \<and>
           add_custom_metadata self m2 = Inr b2"
  using assms
  by (simp add: build_def add_custom_metadata_def get_assign assign_twice)

theorem metadata_overwrite_witness:
  "''self'' \<notin> set (keys [(''environment'', PStr ''production'' :: nat pyval)]) \<and>
   ''self'' \<notin> set (keys [(''version'', PStr ''1.0.0'' :: nat pyval)]) \<and>
   (\<exists>b1 b2. add_custom_metadata init [(''environment'', PStr ''production'')] = Inr b1 \<and>
      add_custom_metadata b1 [(''version'', PStr ''1.0.0'')] = Inr b2 \<and>
      get (configurable (fst (build b2))) ''metadata''
        = Some (PDict [(''version'', PStr ''1.0.0'' :: nat pyval)]))"
proof -
  have k1: "''self'' \<notin> set (keys [(''environment'', PStr ''production'' :: nat pyval)])"
    by (simp add: keys_def)
  have k2: "''self'' \<notin> set (keys [(''version'', PStr ''1.0.0'' :: nat pyval)])"
    by (simp add: keys_def)
  from metadata_overwrite [OF k1 k2, of init] k1 k2 show ?thesis
    by blast
qed

text \<open>A second call with a keyword named \<^verbatim>\<open>self\<close> raises and stores nothing.\<close>

theorem metadata_self_keyword_counterexample:
  "add_custom_metadata
     (projr (add_custom_metadata (init :: nat GraphConfigBuilder) [(''version'', PStr ''1.0.0'')]))
     [(''self'', PInt 1)] = Inl TypeError"
  by (simp add: add_custom_metadata_def keys_def)

text \<open>
  C5. \<open>create_sqlite_config\<close> returns a record whose \<^verbatim>\<open>graph_db\<close> is
  \<^verbatim>\<open>{type: "sqlite", path: "./knowledge_graph.db"}\<close> and whose \<^verbatim>\<open>memory\<close> is
  \<^verbatim>\<open>{type: "sqlite", table: "conversation_memory"}\<close>.
\<close>

theorem sqlite_scenario:
  "\<exists>c. create_sqlite_config = Inr c \<and>
     get (configurable c) ''graph_db''
       = Some (PDict [(''type'', PStr ''sqlite''), (''path'', PStr ''./knowledge_graph.db'')]) \<and>
     get (configurable c) ''memory''
       = Some (PDict [(''type'', PStr ''sqlite''), (''table'', PStr ''conversation_memory'')])"
  by (simp add: create_sqlite_config_def build_def add_custom_metadata_def add_memory_config_def
      add_sqlite_graph_def add_thread_id_def get_assign keys_def Let_def)

text \<open>
  C6. For every builder, \<open>build\<close> called twice in a row returns the same record both
  times, and \<open>build\<close> leaves the builder as it was.
\<close>

theorem build_twice:
  "fst (build (snd (build self))) = fst (build self) \<and> snd (build self) = self"
  by (simp add: build_def)

text \<open>
  C9. When the extra keyword fields passed to \<open>add_memory_config\<close> (keywords that reach
  \<^verbatim>\<open>**kwargs\<close>, so none named \<^verbatim>\<open>self\<close> or \<^verbatim>\<open>memory_type\<close>) contain the key \<^verbatim>\<open>type\<close>, the call
  returns a builder, and the \<^verbatim>\<open>type\<close> of the stored memory record is the keyword field's
  value, not the \<^verbatim>\<open>memory_type\<close> argument.
\<close>

theorem memory_type_collision:
  assumes "distinct (keys kwargs)" and "get kwargs ''type'' = Some v"
    and "''self'' \<notin> set (keys kwargs)" and "''memory_type'' \<notin> set (keys kwargs)"
  shows "\<exists>b m. add_memory_config self memory_type kwargs = Inr b \<and>
           get (configurable (fst (build b))) ''memory'' = Some (PDict m) \<and>
           get m ''type'' = Some v"
  using assms
  by (simp add: build_def add_memory_config_def get_assign get_unpack_into)

theorem memory_type_collision_witness:
  "distinct (keys [(''table'', PStr ''t''), (''type'', PStr ''redis'' :: nat pyval)]) \<and>
   get [(''table'', PStr ''t''), (''type'', PStr ''redis'' :: nat pyval)] ''type''
     = Some (PStr ''redis'') \<and>
   ''self'' \<notin> set (keys [(''table'', PStr ''t''), (''type'', PStr ''redis'' :: nat pyval)]) \<and>
   ''memory_type'' \<notin> set (keys [(''table'', PStr ''t''), (''type'', PStr ''redis'' :: nat pyval)]) \<and>
   (\<exists>b m. add_memory_config init ''sqlite''
            [(''table'', PStr ''t''), (''type'', PStr ''redis'' :: nat pyval)] = Inr b \<and>
      get (configurable (fst (build b))) ''memory'' = Some (PDict m) \<and>
      get m ''type'' = Some (PStr ''redis''))"
proof -
  have d: "distinct (keys [(''table'', PStr ''t''), (''type'', PStr ''redis'' :: nat pyval)])"
    by (simp add: keys_def)
  have g: "get [(''table'', PStr ''t''), (''type'', PStr ''redis'' :: nat pyval)] ''type''
             = Some (PStr ''redis'')"
    by (simp add: get_def)
  have s: "''self'' \<notin> set (keys [(''table'', PStr ''t''), (''type'', PStr ''redis'' :: nat pyval)])"
    by (simp add: keys_def)
  have m: "''memory_type'' \<notin>
      set (keys [(''table'', PStr ''t''), (''type'', PStr ''redis'' :: nat pyval)])"
    by (simp add: keys_def)
  from memory_type_collision [OF d g s m, of init "''sqlite''"] d g s m show ?thesis
    by blast
qed

text \<open>
  A keyword named \<^verbatim>\<open>memory_type\<close> beside the \<^verbatim>\<open>memory_type\<close> argument never becomes an extra
  field: the call raises.
\<close>

lemma add_memory_config_binding_error:
  "add_memory_config self ''sqlite'' [(''type'', PStr ''redis''), (''memory_type'', PStr ''x'')]
     = Inl TypeError"
  by (simp add: add_memory_config_def keys_def)

text \<open>
  C7. When the checkpoint-store constructor returns a handle, \<open>create_advanced_config\<close>
  returns a record whose \<^verbatim>\<open>graph_db\<close> has as \<^verbatim>\<open>password\<close> the value of \<^verbatim>\<open>NEO4J_PASSWORD\<close>
  when the environment sets it and \<^verbatim>\<open>"password"\<close> when it does not. Under any other
  environment the record has the same keys, the same value at every key but \<^verbatim>\<open>graph_db\<close>,
  and a \<^verbatim>\<open>graph_db\<close> with the same keys and the same value at every key but \<^verbatim>\<open>password\<close>.
\<close>

theorem advanced_config_password:
  assumes "from_conn_string ''sqlite:///checkpoints.db'' = Inr store"
  shows "\<exists>c g. create_advanced_config environ from_conn_string = Inr c \<and>
           get (configurable c) ''graph_db'' = Some (PDict g) \<and>
           get g ''password'' =
             Some (PStr (case environ ''NEO4J_PASSWORD'' of None \<Rightarrow> ''password'' | Some p \<Rightarrow> p)) \<and>
           (\<forall>environ'. \<exists>c' g'.
              create_advanced_config environ' from_conn_string = Inr c' \<and>
              get (configurable c') ''graph_db'' = Some (PDict g') \<and>
              keys (configurable c') = keys (configurable c) \<and>
              keys g' = keys g \<and>
              (\<forall>k. k \<noteq> ''graph_db'' \<longrightarrow> get (configurable c') k = get (configurable c) k) \<and>
              (\<forall>k. k \<noteq> ''password'' \<longrightarrow> get g' k = get g k))"
  by (simp add: create_advanced_config_Inr [of from_conn_string store, OF assms] get_def keys_def getenv_def)

theorem advanced_config_password_witness:
  "always_open ''sqlite:///checkpoints.db'' = Inr 24 \<and>
   (\<exists>c g. create_advanced_config [''NEO4J_PASSWORD'' \<mapsto> ''s3cret''] always_open = Inr c \<and>
      get (configurable c) ''graph_db'' = Some (PDict g) \<and>
      get g ''password'' = Some (PStr ''s3cret'')) \<and>
   (\<exists>c g. create_advanced_config Map.empty always_open = Inr c \<and>
      get (configurable c) ''graph_db'' = Some (PDict g) \<and>
      get g ''password'' = Some (PStr ''password''))"
proof -
  note opened = always_open_checkpoints
  have set: "\<exists>c g. create_advanced_config [''NEO4J_PASSWORD'' \<mapsto> ''s3cret''] always_open = Inr c \<and>
      get (configurable c) ''graph_db'' = Some (PDict g) \<and>
      get g ''password'' = Some (PStr ''s3cret'')"
    using advanced_config_password
      [of always_open 24 "[''NEO4J_PASSWORD'' \<mapsto> ''s3cret'']", OF opened]
    by (elim exE conjE) (intro exI conjI, assumption, assumption, simp)
  have unset: "\<exists>c g. create_advanced_config Map.empty always_open = Inr c \<and>
      get (configurable c) ''graph_db'' = Some (PDict g) \<and>
      get g ''password'' = Some (PStr ''password'')"
    using advanced_config_password [of always_open 24 Map.empty, OF opened]
    by (elim exE conjE) (intro exI conjI, assumption, assumption, simp)
  from opened set unset show ?thesis
    by (intro conjI)
qed

section \<open>The tools\<close>

text \<open>
  C8. For all integers, \<open>add_numbers\<close> returns the sum; for every city name, \<open>get_weather\<close>
  returns the sentence \<^verbatim>\<open>The weather in {city} is sunny and 72\<close> followed by the degree
  sign and \<^verbatim>\<open>F\<close>, a function of the city name alone.
\<close>

theorem tools:
  "add_numbers a b = a + b \<and>
   get_weather c = ''The weather in '' @ c @ '' is sunny and 72'' @ [CHR 0xB0] @ ''F'' \<and>
   length (get_weather c) = length c + 33"
  by (simp add: add_numbers_def get_weather_def degree_sign_def)

end
